theory Spec2Isabelle
  imports Main
begin

section \<open>Data model\<close>

text \<open>
  The hook \<^verbatim>\<open>useChat\<close> of \<^verbatim>\<open>frontend/hooks/useChat.ts\<close> keeps a conversation in React
  state and updates it with pure updater functions. The updaters are embedded here as
  functions on records; optional fields of the TypeScript objects are \<open>option\<close> values
  (\<open>None\<close> is \<^verbatim>\<open>undefined\<close>), and the status and role tags are the plain strings the
  code compares with \<^verbatim>\<open>===\<close>.
\<close>

text \<open>
  Modelled from the spec: the type declarations \<^verbatim>\<open>Citation\<close>, \<^verbatim>\<open>SubAnswer\<close>,
  \<^verbatim>\<open>QueryResponse\<close>, \<^verbatim>\<open>ChatMessage\<close> and \<^verbatim>\<open>ConversationState\<close> of \<^verbatim>\<open>lib/types\<close> are not
  among the sources; the fields are those of the spec's data model and of the object
  literals the hook builds. A user message is built without \<^verbatim>\<open>isLoading\<close> and without
  \<^verbatim>\<open>response\<close>, so both are optional.
\<close>

record Citation =
  source :: "string option"
  page :: "int option"
  doc_id :: "string option"
  snippet :: "string option"

record SubAnswer =
  query :: string
  status_sa :: string
  answer :: string
  citations :: "Citation list"
  clarification_question :: "string option"

record QueryResponse =
  conversation_id :: string
  status :: string
  sub_answers :: "SubAnswer list"
  error_message :: "string option"

record ChatMessage =
  id_msg :: string
  role :: string
  content :: string
  timestamp :: int
  isLoading :: "bool option"
  response :: "QueryResponse option"

record ConversationState =
  messages :: "ChatMessage list"
  conversationId :: "string option"
  pendingClarificationIndex :: "int option"

text \<open>The three \<^verbatim>\<open>useState\<close> cells of the hook.\<close>

record ChatHook =
  state :: ConversationState
  loading :: bool
  error :: "string option"

text \<open>\<^verbatim>\<open>useState<ConversationState>({ messages: [] })\<close>, also what \<^verbatim>\<open>clearChat\<close> stores.\<close>

definition emptyState :: ConversationState where
  "emptyState = \<lparr>messages = [], conversationId = None, pendingClarificationIndex = None\<rparr>"

definition initialHook :: ChatHook where
  "initialHook = \<lparr>state = emptyState, loading = False, error = None\<rparr>"

section \<open>JavaScript primitives used by the hook\<close>

text \<open>\<^verbatim>\<open>s.slice(b, e)\<close> for \<open>0 \<le> b\<close>, \<open>0 \<le> e\<close>: the characters from \<open>b\<close> up to, not including, \<open>e\<close>.\<close>

definition slice :: "nat \<Rightarrow> nat \<Rightarrow> string \<Rightarrow> string" where
  "slice b e s = take (e - b) (drop b s)"

text \<open>
  \<^verbatim>\<open>xs.findIndex(p)\<close>: the index of the first element satisfying \<open>p\<close>, and \<open>-1\<close> when
  there is none.
\<close>

fun findIndex_from :: "int \<Rightarrow> ('a \<Rightarrow> bool) \<Rightarrow> 'a list \<Rightarrow> int" where
  "findIndex_from i p [] = - 1"
| "findIndex_from i p (x # xs) = (if p x then i else findIndex_from (i + 1) p xs)"

definition findIndex :: "('a \<Rightarrow> bool) \<Rightarrow> 'a list \<Rightarrow> int" where
  "findIndex p xs = findIndex_from 0 p xs"

text \<open>\<^verbatim>\<open>!v\<close> for an optional string: \<^verbatim>\<open>undefined\<close> and the empty string are falsy.\<close>

definition falsy :: "string option \<Rightarrow> bool" where
  "falsy v = (case v of None \<Rightarrow> True | Some s \<Rightarrow> s = [])"

text \<open>\<^verbatim>\<open>v ?? d\<close>: the default only when the value is absent.\<close>

definition nullish :: "'a option \<Rightarrow> 'a \<Rightarrow> 'a" where
  "nullish v d = (case v of None \<Rightarrow> d | Some x \<Rightarrow> x)"

section \<open>The message store\<close>

text \<open>
  \<^verbatim>\<open>makeId\<close> is \<^verbatim>\<open>Math.random().toString(36).slice(2, 10)\<close>. The random draw is an input
  of the model: \<open>rnd\<close> is the base-36 text of the number drawn, such as \<^verbatim>\<open>0.k3x9q2a7b1c\<close>.
\<close>

definition makeId :: "string \<Rightarrow> string" where
  "makeId rnd = slice 2 10 rnd"

text \<open>
  The updaters passed to \<^verbatim>\<open>setState\<close>. \<open>now\<close> is the value of \<^verbatim>\<open>new Date()\<close>, in
  milliseconds.
\<close>

definition addUserMessage :: "string \<Rightarrow> int \<Rightarrow> string \<Rightarrow> ConversationState \<Rightarrow> ConversationState" where
  "addUserMessage rnd now c prev =
     prev\<lparr>messages := messages prev @
       [\<lparr>id_msg = makeId rnd, role = ''user'', content = c, timestamp = now,
         isLoading = None, response = None\<rparr>]\<rparr>"

definition addLoadingMessage :: "string \<Rightarrow> int \<Rightarrow> ConversationState \<Rightarrow> ConversationState" where
  "addLoadingMessage rnd now prev =
     prev\<lparr>messages := messages prev @
       [\<lparr>id_msg = makeId rnd, role = ''assistant'', content = [], timestamp = now,
         isLoading = Some True, response = None\<rparr>]\<rparr>"

text \<open>\<^verbatim>\<open>response.sub_answers[0]?.answer ?? ""\<close>\<close>

definition firstAnswer :: "QueryResponse \<Rightarrow> string" where
  "firstAnswer r = (case sub_answers r of [] \<Rightarrow> [] | sa # _ \<Rightarrow> answer sa)"

definition resolveMessage :: "string \<Rightarrow> QueryResponse \<Rightarrow> ConversationState \<Rightarrow> ConversationState" where
  "resolveMessage i r prev =
     prev\<lparr>conversationId := Some (conversation_id r),
          pendingClarificationIndex :=
            (if status r = ''clarification_required''
             then Some (findIndex (\<lambda>sa. status_sa sa = ''clarification_required'') (sub_answers r))
             else None),
          messages :=
            map (\<lambda>m. if id_msg m = i
                      then m\<lparr>isLoading := Some False, response := Some r, content := firstAnswer r\<rparr>
                      else m)
                (messages prev)\<rparr>"

definition failureResponse :: "ConversationState \<Rightarrow> string \<Rightarrow> QueryResponse" where
  "failureResponse prev errText =
     \<lparr>conversation_id = nullish (conversationId prev) [],
      status = ''failure'',
      sub_answers = [\<lparr>query = [], status_sa = ''failed'', answer = errText, citations = [],
                      clarification_question = None\<rparr>],
      error_message = None\<rparr>"

definition failMessage :: "string \<Rightarrow> string \<Rightarrow> ConversationState \<Rightarrow> ConversationState" where
  "failMessage i errText prev =
     prev\<lparr>messages :=
            map (\<lambda>m. if id_msg m = i
                      then m\<lparr>isLoading := Some False, response := Some (failureResponse prev errText)\<rparr>
                      else m)
                (messages prev)\<rparr>"

section \<open>The request coordinator\<close>

text \<open>
  A value caught by \<^verbatim>\<open>catch (e: unknown)\<close> is an \<^verbatim>\<open>Error\<close> object carrying a message,
  or anything else; \<^verbatim>\<open>e instanceof Error ? e.message : "Unknown error"\<close>.
\<close>

datatype thrown = ErrorObject string | OtherValue

fun errorText :: "thrown \<Rightarrow> string" where
  "errorText (ErrorObject msg) = msg"
| "errorText OtherValue = ''Unknown error''"

text \<open>How the awaited promise of \<^verbatim>\<open>sendQuery\<close> or \<^verbatim>\<open>sendClarification\<close> settles.\<close>

datatype outcome = Fulfilled QueryResponse | Rejected thrown

text \<open>The calls to the external query API, with their arguments.\<close>

datatype request =
    SendQuery string "string option" "string option"
  | SendClarification string int string

text \<open>What one turn takes from its environment: two random draws and two clock readings.\<close>

record TurnInputs =
  rndUser :: string
  nowUser :: int
  rndLoad :: string
  nowLoad :: int

text \<open>
  The statements of \<^verbatim>\<open>submitQuery\<close> up to the \<^verbatim>\<open>await\<close>. The callback reads
  \<^verbatim>\<open>state.conversationId\<close> from the render it was created in, \<open>snap\<close>, while the
  updaters run on the current state. The result is the hook after the four updates, the
  id of the placeholder, and the request issued.
\<close>

definition submitQuery_dispatch ::
  "ConversationState \<Rightarrow> string \<Rightarrow> string option \<Rightarrow> TurnInputs \<Rightarrow> ChatHook \<Rightarrow> ChatHook \<times> string \<times> request" where
  "submitQuery_dispatch snap p pdfPath inp h =
     (let h1 = h\<lparr>error := None\<rparr>;
          h2 = h1\<lparr>state := addUserMessage (rndUser inp) (nowUser inp) p (state h1)\<rparr>;
          loadId = makeId (rndLoad inp);
          h3 = h2\<lparr>state := addLoadingMessage (rndLoad inp) (nowLoad inp) (state h2)\<rparr>;
          h4 = h3\<lparr>loading := True\<rparr>
      in (h4, loadId, SendQuery p (conversationId snap) pdfPath))"

text \<open>
  The \<^verbatim>\<open>try\<close>/\<^verbatim>\<open>catch\<close>/\<^verbatim>\<open>finally\<close> after the \<^verbatim>\<open>await\<close>, the same in \<^verbatim>\<open>submitQuery\<close> and
  \<^verbatim>\<open>submitClarification\<close>.
\<close>

definition settle :: "string \<Rightarrow> outcome \<Rightarrow> ChatHook \<Rightarrow> ChatHook" where
  "settle loadId out h =
     (let h1 = (case out of
                  Fulfilled resp \<Rightarrow> h\<lparr>state := resolveMessage loadId resp (state h)\<rparr>
                | Rejected e \<Rightarrow>
                    (let msg = errorText e;
                         h' = h\<lparr>error := Some msg\<rparr>
                     in h'\<lparr>state := failMessage loadId msg (state h')\<rparr>))
      in h1\<lparr>loading := False\<rparr>)"

text \<open>
  The statements of \<^verbatim>\<open>submitClarification\<close> up to the \<^verbatim>\<open>await\<close>; \<open>None\<close> in the second
  component is the early \<^verbatim>\<open>return\<close>, on which nothing is requested.
\<close>

definition submitClarification_dispatch ::
  "ConversationState \<Rightarrow> string \<Rightarrow> TurnInputs \<Rightarrow> ChatHook \<Rightarrow> ChatHook \<times> (string \<times> request) option" where
  "submitClarification_dispatch snap ans inp h =
     (if falsy (conversationId snap) \<or> pendingClarificationIndex snap = None then (h, None)
      else
        (let h1 = h\<lparr>error := None\<rparr>;
             h2 = h1\<lparr>state := addUserMessage (rndUser inp) (nowUser inp) (''Clarification: '' @ ans) (state h1)\<rparr>;
             loadId = makeId (rndLoad inp);
             h3 = h2\<lparr>state := addLoadingMessage (rndLoad inp) (nowLoad inp) (state h2)\<rparr>;
             h4 = h3\<lparr>loading := True\<rparr>
         in (h4, Some (loadId,
               SendClarification (the (conversationId snap)) (the (pendingClarificationIndex snap)) ans))))"

definition clearChat :: "ChatHook \<Rightarrow> ChatHook" where
  "clearChat h = (h\<lparr>state := emptyState\<rparr>)\<lparr>error := None\<rparr>"

definition hasPendingClarification :: "ChatHook \<Rightarrow> bool" where
  "hasPendingClarification h = (pendingClarificationIndex (state h) \<noteq> None)"

section \<open>Runs of the hook\<close>

text \<open>
  What can happen to the hook, one event at a time: a call of \<^verbatim>\<open>submitQuery\<close> or
  \<^verbatim>\<open>submitClarification\<close> reaching its \<^verbatim>\<open>await\<close>, an awaited request settling (for the
  placeholder id its call holds), and \<^verbatim>\<open>clearChat\<close>. Requests may overlap: any number of
  calls can be started before one settles.
\<close>

datatype event =
    QueryStarted ConversationState string "string option" TurnInputs
  | ClarificationStarted ConversationState string TurnInputs
  | Settled string outcome
  | Cleared

fun step :: "event \<Rightarrow> ChatHook \<Rightarrow> ChatHook" where
  "step (QueryStarted snap p pdfPath inp) h = fst (submitQuery_dispatch snap p pdfPath inp h)"
| "step (ClarificationStarted snap ans inp) h = fst (submitClarification_dispatch snap ans inp h)"
| "step (Settled loadId out) h = settle loadId out h"
| "step Cleared h = clearChat h"

definition run :: "event list \<Rightarrow> ChatHook \<Rightarrow> ChatHook" where
  "run evs h = fold step evs h"


fun isQueryTurn :: "event \<Rightarrow> bool" where
  "isQueryTurn (QueryStarted snap p pdfPath inp) = True"
| "isQueryTurn (Settled loadId out) = True"
| "isQueryTurn _ = False"

fun isQueryStarted :: "event \<Rightarrow> bool" where
  "isQueryStarted (QueryStarted snap p pdfPath inp) = True"
| "isQueryStarted _ = False"



section \<open>Properties of the message store\<close>

lemma map_unless_eq: "\<forall>m \<in> set ms. g m \<noteq> i \<Longrightarrow> map (\<lambda>m. if g m = i then f m else m) ms = ms"
  by (induction ms) auto



lemma findIndex_from_found:
  "k < length xs \<Longrightarrow> p (xs ! k) \<Longrightarrow> \<forall>j<k. \<not> p (xs ! j) \<Longrightarrow> findIndex_from n p xs = n + int k"
proof (induction xs arbitrary: n k)
  case Nil
  then show ?case by simp
next
  case (Cons x xs)
  show ?case
  proof (cases k)
    case 0
    with Cons.prems show ?thesis by simp
  next
    case (Suc k')
    from Cons.prems Suc have "\<not> p x" by auto
    moreover from Cons.prems Suc have "findIndex_from (n + 1) p xs = (n + 1) + int k'"
      by (intro Cons.IH) auto
    ultimately show ?thesis using Suc by simp
  qed
qed

text \<open>
  C5. For a message of the state with the given id, \<^verbatim>\<open>resolveMessage\<close> sets the displayed
  content to the answer of the first sub-answer of the response when there is one, and to
  the empty string when the response has no sub-answers.
\<close>

theorem resolveMessage_content:
  "k < length (messages s) \<Longrightarrow> id_msg (messages s ! k) = i \<Longrightarrow>
   content (messages (resolveMessage i r s) ! k) =
     (if sub_answers r = [] then [] else answer (sub_answers r ! 0))"
  by (simp add: resolveMessage_def firstAnswer_def split: list.splits)

theorem resolveMessage_content_witness:
  "content (messages (resolveMessage ''k3x9q2a7''
       \<lparr>conversation_id = ''c1'', status = ''answered'',
        sub_answers = [\<lparr>query = ''What is HyDE?'', status_sa = ''answered'',
                        answer = ''HyDE generates a hypothetical document'', citations = [],
                        clarification_question = None\<rparr>],
        error_message = None\<rparr>
       \<lparr>messages = [\<lparr>id_msg = ''k3x9q2a7'', role = ''assistant'', content = [], timestamp = 5,
                      isLoading = Some True, response = None\<rparr>],
        conversationId = None, pendingClarificationIndex = None\<rparr>) ! 0)
     = ''HyDE generates a hypothetical document''
   \<and> content (messages (resolveMessage ''k3x9q2a7''
       \<lparr>conversation_id = ''c1'', status = ''failure'', sub_answers = [], error_message = None\<rparr>
       \<lparr>messages = [\<lparr>id_msg = ''k3x9q2a7'', role = ''assistant'', content = ''old'', timestamp = 5,
                      isLoading = Some True, response = None\<rparr>],
        conversationId = None, pendingClarificationIndex = None\<rparr>) ! 0)
     = []"
  using
    resolveMessage_content [of 0
      "\<lparr>messages = [\<lparr>id_msg = ''k3x9q2a7'', role = ''assistant'', content = [], timestamp = 5,
                      isLoading = Some True, response = None\<rparr>],
        conversationId = None, pendingClarificationIndex = None\<rparr>"
      "''k3x9q2a7''"
      "\<lparr>conversation_id = ''c1'', status = ''answered'',
        sub_answers = [\<lparr>query = ''What is HyDE?'', status_sa = ''answered'',
                        answer = ''HyDE generates a hypothetical document'', citations = [],
                        clarification_question = None\<rparr>],
        error_message = None\<rparr>"]
    resolveMessage_content [of 0
      "\<lparr>messages = [\<lparr>id_msg = ''k3x9q2a7'', role = ''assistant'', content = ''old'', timestamp = 5,
                      isLoading = Some True, response = None\<rparr>],
        conversationId = None, pendingClarificationIndex = None\<rparr>"
      "''k3x9q2a7''"
      "\<lparr>conversation_id = ''c1'', status = ''failure'', sub_answers = [], error_message = None\<rparr>"]
  by simp

text \<open>
  C7. \<^verbatim>\<open>resolveMessage\<close> is idempotent: resolving the same id with the same response a
  second time gives the state the first resolution gave, and so the same content.
\<close>

theorem resolveMessage_idempotent:
  "resolveMessage i r (resolveMessage i r s) = resolveMessage i r s"
  by (simp add: resolveMessage_def o_def cong: if_cong)

text \<open>
  C4. \<^verbatim>\<open>failMessage\<close> turns every message with the given id into the same message with
  \<^verbatim>\<open>isLoading\<close> false and a response of status \<^verbatim>\<open>failure\<close>, whose conversation id is the
  session id of the previous state, or the empty string when there is none, and whose only
  sub-answer has an empty query, status \<^verbatim>\<open>failed\<close>, no citations and the error text as
  answer. When no message has the id, the state is unchanged.
\<close>

theorem failMessage_synthesizes_failure:
  "(\<forall>k < length (messages s). id_msg (messages s ! k) = i \<longrightarrow>
     messages (failMessage i e s) ! k =
       (messages s ! k)\<lparr>isLoading := Some False,
         response := Some \<lparr>conversation_id = (case conversationId s of None \<Rightarrow> [] | Some c \<Rightarrow> c),
                           status = ''failure'',
                           sub_answers = [\<lparr>query = [], status_sa = ''failed'', answer = e,
                                           citations = [], clarification_question = None\<rparr>],
                           error_message = None\<rparr>\<rparr>)
  \<and> (i \<notin> set (map id_msg (messages s)) \<longrightarrow> failMessage i e s = s)"
proof (intro conjI allI impI)
  fix k
  assume "k < length (messages s)" and "id_msg (messages s ! k) = i"
  then show "messages (failMessage i e s) ! k =
       (messages s ! k)\<lparr>isLoading := Some False,
         response := Some \<lparr>conversation_id = (case conversationId s of None \<Rightarrow> [] | Some c \<Rightarrow> c),
                           status = ''failure'',
                           sub_answers = [\<lparr>query = [], status_sa = ''failed'', answer = e,
                                           citations = [], clarification_question = None\<rparr>],
                           error_message = None\<rparr>\<rparr>"
    by (simp add: failMessage_def failureResponse_def nullish_def)
next
  assume "i \<notin> set (map id_msg (messages s))"
  then have "\<forall>m \<in> set (messages s). id_msg m \<noteq> i" by auto
  then have "messages (failMessage i e s) = messages s"
    unfolding failMessage_def by (simp add: map_unless_eq)
  then show "failMessage i e s = s"
    by (simp add: failMessage_def)
qed

theorem failMessage_synthesizes_failure_witness:
  "messages (failMessage ''k3x9q2a7'' ''timeout''
      \<lparr>messages = [\<lparr>id_msg = ''k3x9q2a7'', role = ''assistant'', content = [], timestamp = 5,
                     isLoading = Some True, response = None\<rparr>],
       conversationId = None, pendingClarificationIndex = None\<rparr>) ! 0 =
   \<lparr>id_msg = ''k3x9q2a7'', role = ''assistant'', content = [], timestamp = 5,
    isLoading = Some False,
    response = Some \<lparr>conversation_id = [], status = ''failure'',
                      sub_answers = [\<lparr>query = [], status_sa = ''failed'', answer = ''timeout'',
                                      citations = [], clarification_question = None\<rparr>],
                      error_message = None\<rparr>\<rparr>
   \<and> failMessage ''zzzzzzzz'' ''timeout'' emptyState = emptyState"
  using
    failMessage_synthesizes_failure
      [of "\<lparr>messages = [\<lparr>id_msg = ''k3x9q2a7'', role = ''assistant'', content = [], timestamp = 5,
                          isLoading = Some True, response = None\<rparr>],
            conversationId = None, pendingClarificationIndex = None\<rparr>" "''k3x9q2a7''" "''timeout''"]
    failMessage_synthesizes_failure [of emptyState "''zzzzzzzz''" "''timeout''"]
  by (simp add: emptyState_def)

text \<open>
  C9. \<^verbatim>\<open>failMessage\<close> leaves \<^verbatim>\<open>conversationId\<close> and \<^verbatim>\<open>pendingClarificationIndex\<close> as they
  were, for every id and error text; so a request that is rejected changes neither the
  session identity nor whether a clarification is pending.
\<close>

theorem failMessage_keeps_session:
  "conversationId (failMessage i e s) = conversationId s \<and>
   pendingClarificationIndex (failMessage i e s) = pendingClarificationIndex s \<and>
   conversationId (state (settle i (Rejected t) h)) = conversationId (state h) \<and>
   pendingClarificationIndex (state (settle i (Rejected t) h)) = pendingClarificationIndex (state h) \<and>
   hasPendingClarification (settle i (Rejected t) h) = hasPendingClarification h"
  by (simp add: failMessage_def settle_def hasPendingClarification_def Let_def)

text \<open>
  C1. After \<^verbatim>\<open>resolveMessage\<close>, \<^verbatim>\<open>pendingClarificationIndex\<close> should be undefined when the
  response has status \<^verbatim>\<open>clarification_required\<close> and no sub-answer with that status.
  On such a response (here with no sub-answers at all) the code stores the \<open>-1\<close> that
  \<^verbatim>\<open>findIndex\<close> returns, and \<^verbatim>\<open>hasPendingClarification\<close> is then true.
\<close>

theorem resolveMessage_pending_minus_one:
  "pendingClarificationIndex (resolveMessage ''k3x9q2a7''
       \<lparr>conversation_id = ''c1'', status = ''clarification_required'', sub_answers = [],
        error_message = None\<rparr> emptyState) = Some (- 1)
   \<and> hasPendingClarification (settle ''k3x9q2a7''
       (Fulfilled \<lparr>conversation_id = ''c1'', status = ''clarification_required'', sub_answers = [],
        error_message = None\<rparr>) initialHook)"
  by (simp add: resolveMessage_def findIndex_def emptyState_def settle_def hasPendingClarification_def initialHook_def)

text \<open>
  C2, as claimed: resolving an id that no message has leaves the whole state unchanged.
  On the empty state the messages stay empty, but \<^verbatim>\<open>conversationId\<close> is set from the
  response.
\<close>

theorem resolveMessage_unknown_id_counterexample:
  "''k3x9q2a7'' \<notin> set (map id_msg (messages emptyState)) \<and>
   resolveMessage ''k3x9q2a7''
       \<lparr>conversation_id = ''c1'', status = ''answered'', sub_answers = [], error_message = None\<rparr>
       emptyState \<noteq> emptyState"
  by (simp add: resolveMessage_def emptyState_def)

text \<open>
  C2, amended. When no message has the given id, \<^verbatim>\<open>resolveMessage\<close> leaves the messages
  unchanged, and still sets \<^verbatim>\<open>conversationId\<close> to the conversation id of the response and
  recomputes \<^verbatim>\<open>pendingClarificationIndex\<close> from the response: undefined when the status is
  not \<^verbatim>\<open>clarification_required\<close>, and the index of the first sub-answer with status
  \<^verbatim>\<open>clarification_required\<close> when the status is \<^verbatim>\<open>clarification_required\<close> and there is
  such a sub-answer.
\<close>

theorem resolveMessage_unknown_id:
  assumes "i \<notin> set (map id_msg (messages s))"
  shows "messages (resolveMessage i r s) = messages s \<and>
     conversationId (resolveMessage i r s) = Some (conversation_id r) \<and>
     (status r \<noteq> ''clarification_required'' \<longrightarrow> pendingClarificationIndex (resolveMessage i r s) = None) \<and>
     (status r = ''clarification_required'' \<and> k < length (sub_answers r) \<and>
        status_sa (sub_answers r ! k) = ''clarification_required'' \<and>
        (\<forall>j<k. status_sa (sub_answers r ! j) \<noteq> ''clarification_required'') \<longrightarrow>
        pendingClarificationIndex (resolveMessage i r s) = Some (int k))"
proof -
  from assms have "\<forall>m \<in> set (messages s). id_msg m \<noteq> i" by auto
  then have "messages (resolveMessage i r s) = messages s"
    unfolding resolveMessage_def by (simp add: map_unless_eq)
  moreover have "conversationId (resolveMessage i r s) = Some (conversation_id r)"
    by (simp add: resolveMessage_def)
  moreover have "status r \<noteq> ''clarification_required'' \<longrightarrow> pendingClarificationIndex (resolveMessage i r s) = None"
    by (simp add: resolveMessage_def)
  moreover have "status r = ''clarification_required'' \<and> k < length (sub_answers r) \<and>
        status_sa (sub_answers r ! k) = ''clarification_required'' \<and>
        (\<forall>j<k. status_sa (sub_answers r ! j) \<noteq> ''clarification_required'') \<longrightarrow>
        pendingClarificationIndex (resolveMessage i r s) = Some (int k)"
    using findIndex_from_found [of k "sub_answers r" "\<lambda>sa. status_sa sa = ''clarification_required''" 0]
    by (simp add: resolveMessage_def findIndex_def)
  ultimately show ?thesis by blast
qed

theorem resolveMessage_unknown_id_witness:
  "messages (resolveMessage ''k3x9q2a7''
       \<lparr>conversation_id = ''c1'', status = ''clarification_required'',
        sub_answers = [\<lparr>query = ''q0'', status_sa = ''answered'', answer = ''a0'', citations = [],
                        clarification_question = None\<rparr>,
                       \<lparr>query = ''q1'', status_sa = ''clarification_required'', answer = [], citations = [],
                        clarification_question = Some ''Which year?''\<rparr>],
        error_message = None\<rparr> emptyState) = []
   \<and> conversationId (resolveMessage ''k3x9q2a7''
       \<lparr>conversation_id = ''c1'', status = ''clarification_required'',
        sub_answers = [\<lparr>query = ''q0'', status_sa = ''answered'', answer = ''a0'', citations = [],
                        clarification_question = None\<rparr>,
                       \<lparr>query = ''q1'', status_sa = ''clarification_required'', answer = [], citations = [],
                        clarification_question = Some ''Which year?''\<rparr>],
        error_message = None\<rparr> emptyState) = Some ''c1''
   \<and> pendingClarificationIndex (resolveMessage ''k3x9q2a7''
       \<lparr>conversation_id = ''c1'', status = ''clarification_required'',
        sub_answers = [\<lparr>query = ''q0'', status_sa = ''answered'', answer = ''a0'', citations = [],
                        clarification_question = None\<rparr>,
                       \<lparr>query = ''q1'', status_sa = ''clarification_required'', answer = [], citations = [],
                        clarification_question = Some ''Which year?''\<rparr>],
        error_message = None\<rparr> emptyState) = Some 1"
proof -
  let ?r = "\<lparr>conversation_id = ''c1'', status = ''clarification_required'',
        sub_answers = [\<lparr>query = ''q0'', status_sa = ''answered'', answer = ''a0'', citations = [],
                        clarification_question = None\<rparr>,
                       \<lparr>query = ''q1'', status_sa = ''clarification_required'', answer = [], citations = [],
                        clarification_question = Some ''Which year?''\<rparr>],
        error_message = None\<rparr>"
  have notin: "''k3x9q2a7'' \<notin> set (map id_msg (messages emptyState))"
    by (simp add: emptyState_def)
  have first: "\<forall>j<(1::nat). status_sa (sub_answers ?r ! j) \<noteq> ''clarification_required''"
    by simp
  from resolveMessage_unknown_id [OF notin, of ?r 1] first show ?thesis
    by (simp add: emptyState_def)
qed

text \<open>
  C3, as claimed: with \<^verbatim>\<open>conversationId\<close> and \<^verbatim>\<open>pendingClarificationIndex\<close> both defined,
  \<^verbatim>\<open>submitClarification\<close> appends the two messages and calls the clarification operation.
  With the empty string as conversation id, which is defined and falsy, it returns at once.
\<close>

theorem submitClarification_empty_id_counterexample:
  "conversationId \<lparr>messages = [], conversationId = Some [], pendingClarificationIndex = Some 0\<rparr> \<noteq> None \<and>
   pendingClarificationIndex \<lparr>messages = [], conversationId = Some [], pendingClarificationIndex = Some 0\<rparr> \<noteq> None \<and>
   submitClarification_dispatch
     \<lparr>messages = [], conversationId = Some [], pendingClarificationIndex = Some 0\<rparr>
     ''yearly revenue''
     \<lparr>rndUser = ''0.k3x9q2a7b1c'', nowUser = 1, rndLoad = ''0.4fzyo82mvyr'', nowLoad = 2\<rparr>
     \<lparr>state = \<lparr>messages = [], conversationId = Some [], pendingClarificationIndex = Some 0\<rparr>,
      loading = False, error = Some ''timeout''\<rparr>
   = (\<lparr>state = \<lparr>messages = [], conversationId = Some [], pendingClarificationIndex = Some 0\<rparr>,
      loading = False, error = Some ''timeout''\<rparr>, None)"
  by (simp add: submitClarification_dispatch_def falsy_def)

text \<open>
  C3, amended. \<^verbatim>\<open>submitClarification\<close> changes nothing and requests nothing when
  \<^verbatim>\<open>conversationId\<close> is undefined or the empty string, or \<^verbatim>\<open>pendingClarificationIndex\<close> is
  undefined. Otherwise it clears the last error, appends a user message with content
  \<^verbatim>\<open>"Clarification: " + answer\<close> and then a loading placeholder, sets the loading flag, and
  calls the clarification operation with the conversation id, the pending index and the
  answer.
\<close>

theorem submitClarification_guard:
  "(conversationId snap = None \<or> conversationId snap = Some [] \<or> pendingClarificationIndex snap = None
      \<longrightarrow> submitClarification_dispatch snap ans inp h = (h, None))
   \<and> (\<forall>cid idx. conversationId snap = Some cid \<and> cid \<noteq> [] \<and> pendingClarificationIndex snap = Some idx
      \<longrightarrow> submitClarification_dispatch snap ans inp h =
           (h\<lparr>error := None,
              state := (state h)\<lparr>messages := messages (state h) @
                [\<lparr>id_msg = makeId (rndUser inp), role = ''user'', content = ''Clarification: '' @ ans,
                  timestamp = nowUser inp, isLoading = None, response = None\<rparr>,
                 \<lparr>id_msg = makeId (rndLoad inp), role = ''assistant'', content = [],
                  timestamp = nowLoad inp, isLoading = Some True, response = None\<rparr>]\<rparr>,
              loading := True\<rparr>,
            Some (makeId (rndLoad inp), SendClarification cid idx ans)))"
  by (auto simp add: submitClarification_dispatch_def falsy_def Let_def addUserMessage_def addLoadingMessage_def)

theorem submitClarification_guard_witness:
  "submitClarification_dispatch emptyState ''yearly revenue''
     \<lparr>rndUser = ''0.k3x9q2a7b1c'', nowUser = 1, rndLoad = ''0.4fzyo82mvyr'', nowLoad = 2\<rparr>
     initialHook = (initialHook, None)
   \<and> submitClarification_dispatch
     \<lparr>messages = [], conversationId = Some ''c1'', pendingClarificationIndex = Some 0\<rparr>
     ''yearly revenue''
     \<lparr>rndUser = ''0.k3x9q2a7b1c'', nowUser = 1, rndLoad = ''0.4fzyo82mvyr'', nowLoad = 2\<rparr>
     \<lparr>state = \<lparr>messages = [], conversationId = Some ''c1'', pendingClarificationIndex = Some 0\<rparr>,
      loading = False, error = Some ''timeout''\<rparr>
   = (\<lparr>state = \<lparr>messages =
          [\<lparr>id_msg = ''k3x9q2a7'', role = ''user'', content = ''Clarification: yearly revenue'',
            timestamp = 1, isLoading = None, response = None\<rparr>,
           \<lparr>id_msg = ''4fzyo82m'', role = ''assistant'', content = [],
            timestamp = 2, isLoading = Some True, response = None\<rparr>],
         conversationId = Some ''c1'', pendingClarificationIndex = Some 0\<rparr>,
       loading = True, error = None\<rparr>,
      Some (''4fzyo82m'', SendClarification ''c1'' 0 ''yearly revenue''))"
  using
    submitClarification_guard [of emptyState "''yearly revenue''"
      "\<lparr>rndUser = ''0.k3x9q2a7b1c'', nowUser = 1, rndLoad = ''0.4fzyo82mvyr'', nowLoad = 2\<rparr>"
      initialHook]
    submitClarification_guard [of "\<lparr>messages = [], conversationId = Some ''c1'', pendingClarificationIndex = Some 0\<rparr>"
      "''yearly revenue''"
      "\<lparr>rndUser = ''0.k3x9q2a7b1c'', nowUser = 1, rndLoad = ''0.4fzyo82mvyr'', nowLoad = 2\<rparr>"
      "\<lparr>state = \<lparr>messages = [], conversationId = Some ''c1'', pendingClarificationIndex = Some 0\<rparr>,
      loading = False, error = Some ''timeout''\<rparr>"]
  by (simp add: emptyState_def makeId_def slice_def)

section \<open>Properties of runs\<close>

lemma messages_submitQuery_dispatch:
  "messages (state (fst (submitQuery_dispatch snap p pdfPath inp h))) =
     messages (state h) @
       [\<lparr>id_msg = makeId (rndUser inp), role = ''user'', content = p, timestamp = nowUser inp,
         isLoading = None, response = None\<rparr>,
        \<lparr>id_msg = makeId (rndLoad inp), role = ''assistant'', content = [], timestamp = nowLoad inp,
         isLoading = Some True, response = None\<rparr>]"
  by (simp add: submitQuery_dispatch_def Let_def addUserMessage_def addLoadingMessage_def)

lemma length_resolveMessage: "length (messages (resolveMessage i r s)) = length (messages s)"
  by (simp add: resolveMessage_def)

lemma length_failMessage: "length (messages (failMessage i e s)) = length (messages s)"
  by (simp add: failMessage_def)

lemma length_settle: "length (messages (state (settle i out h))) = length (messages (state h))"
  by (simp add: settle_def Let_def length_resolveMessage length_failMessage split: outcome.splits)

lemma length_step_query:
  "isQueryTurn e \<Longrightarrow> length (messages (state (step e h))) =
     length (messages (state h)) + (if isQueryStarted e then 2 else 0)"
  by (cases e) (simp_all add: messages_submitQuery_dispatch length_settle)

lemma length_run_query:
  "\<forall>e \<in> set evs. isQueryTurn e \<Longrightarrow>
   length (messages (state (fold step evs h))) =
     length (messages (state h)) + 2 * length (filter isQueryStarted evs)"
  by (induction evs arbitrary: h) (simp_all add: length_step_query)

text \<open>
  C6. In a run of \<^verbatim>\<open>submitQuery\<close> calls, overlapping or not, whose requests are fulfilled
  or rejected, the number of messages grows by exactly two for each call started: the call
  appends a user message with the literal prompt and then an assistant loading placeholder,
  and \<^verbatim>\<open>resolveMessage\<close> and \<^verbatim>\<open>failMessage\<close> never change the number of messages.
\<close>

theorem submitQuery_adds_two:
  "((\<forall>e \<in> set evs. isQueryTurn e) \<longrightarrow>
     length (messages (state (run evs h))) =
       length (messages (state h)) + 2 * length (filter isQueryStarted evs))
   \<and> messages (state (step (QueryStarted snap p pdfPath inp) h)) =
     messages (state h) @
       [\<lparr>id_msg = makeId (rndUser inp), role = ''user'', content = p, timestamp = nowUser inp,
         isLoading = None, response = None\<rparr>,
        \<lparr>id_msg = makeId (rndLoad inp), role = ''assistant'', content = [], timestamp = nowLoad inp,
         isLoading = Some True, response = None\<rparr>]
   \<and> length (messages (resolveMessage i r s)) = length (messages s)
   \<and> length (messages (failMessage i e s)) = length (messages s)"
  by (simp add: run_def length_run_query messages_submitQuery_dispatch length_resolveMessage length_failMessage)

theorem submitQuery_adds_two_witness:
  "length (messages (state (run
     [QueryStarted emptyState ''What is HyDE?'' None
        \<lparr>rndUser = ''0.k3x9q2a7b1c'', nowUser = 1, rndLoad = ''0.4fzyo82mvyr'', nowLoad = 2\<rparr>,
      QueryStarted emptyState ''And RAG?'' None
        \<lparr>rndUser = ''0.9d8c7b6a5f4'', nowUser = 3, rndLoad = ''0.zz11yy22xx3'', nowLoad = 4\<rparr>,
      Settled ''zz11yy22'' (Rejected (ErrorObject ''timeout'')),
      Settled ''4fzyo82m'' (Fulfilled \<lparr>conversation_id = ''c1'', status = ''answered'',
        sub_answers = [], error_message = None\<rparr>)]
     initialHook))) = 4"
  using submitQuery_adds_two [of
     "[QueryStarted emptyState ''What is HyDE?'' None
        \<lparr>rndUser = ''0.k3x9q2a7b1c'', nowUser = 1, rndLoad = ''0.4fzyo82mvyr'', nowLoad = 2\<rparr>,
      QueryStarted emptyState ''And RAG?'' None
        \<lparr>rndUser = ''0.9d8c7b6a5f4'', nowUser = 3, rndLoad = ''0.zz11yy22xx3'', nowLoad = 4\<rparr>,
      Settled ''zz11yy22'' (Rejected (ErrorObject ''timeout'')),
      Settled ''4fzyo82m'' (Fulfilled \<lparr>conversation_id = ''c1'', status = ''answered'',
        sub_answers = [], error_message = None\<rparr>)]" initialHook]
  by (simp add: initialHook_def emptyState_def)


















end
